theory Spec2Isabelle
  imports Complex_Main "HOL-Library.List_Lexorder"
begin

section \<open>StockEstimate: migration, timeline projection and portfolio summary\<close>

text \<open>
  A shallow embedding of the calculation module \<^verbatim>\<open>src/utils/calculations.js\<close>
  (\<^verbatim>\<open>diffInDays\<close>, \<^verbatim>\<open>migrateChemical\<close>, \<^verbatim>\<open>calculateChemical\<close>, \<^verbatim>\<open>calculateAll\<close>; its
  text follows the component in \<^verbatim>\<open>src/components/InventoryTable.jsx\<close>) and of the
  \<^verbatim>\<open>migrateChemical\<close> of the storage layer (\<^verbatim>\<open>server.js\<close>, \<^verbatim>\<open>api/_storage.js\<close>).

  Conventions of the model.
  \<^item> A JavaScript number is a \<^typ>\<open>real\<close>: arithmetic is exact, the rounding of IEEE
    doubles is not modelled. \<^verbatim>\<open>Infinity\<close> only occurs as the value of three derived
    fields and has its own constructor there.
  \<^item> A numeric field that is absent, \<^verbatim>\<open>undefined\<close> or \<^verbatim>\<open>null\<close> is \<open>None\<close>; the
    source reads every such field through \<^verbatim>\<open>x || 0\<close>.
  \<^item> A date is the string the application stores. What the host makes of a string is a
    parameter of the model: \<open>dateOf s\<close> is the time value of \<^verbatim>\<open>new Date(s)\<close>, in
    milliseconds since the epoch, and \<open>None\<close> for an invalid date, whose time value is
    \<^verbatim>\<open>NaN\<close>; \<open>keyOf s\<close> is the collation key of \<open>s\<close>, so that \<^verbatim>\<open>a.localeCompare(b)\<close> is
    negative, zero or positive as \<open>keyOf a\<close> is less than, equal to or greater than
    \<open>keyOf b\<close>. The theorems hold for every \<open>dateOf\<close> and \<open>keyOf\<close>; the concrete inputs
    are evaluated on the example host defined below.
  \<^item> An \<^verbatim>\<open>eta\<close> that is \<^verbatim>\<open>null\<close> or absent is \<open>None\<close>; the empty string is \<open>Some []\<close>
    and, as in the source, falsy.
  \<^item> An array held in a field is a list, held by value.
\<close>

subsection \<open>Data\<close>

text \<open>A time value: milliseconds since the epoch.\<close>

type_synonym timestamp = int

text \<open>An entry of \<^verbatim>\<open>imports\<close>: \<^verbatim>\<open>{ qty, eta, label }\<close>.\<close>

record shipment =
  qty :: "real option"
  eta :: "string option"
  label :: "string option"

text \<open>
  The field \<^verbatim>\<open>imports\<close> of a chemical. \<^verbatim>\<open>migrateChemical\<close> tests it with
  \<^verbatim>\<open>!== undefined\<close>, \<^verbatim>\<open>calculateChemical\<close> reads it through \<^verbatim>\<open>|| []\<close>, so
  \<^verbatim>\<open>undefined\<close> and \<^verbatim>\<open>null\<close> are kept apart.
\<close>

datatype imports_field = Undefined | Null | Arr "shipment list"

text \<open>
  A chemical as persisted. \<open>chem_import\<close> and \<open>importEta\<close> are the fields
  \<^verbatim>\<open>import\<close> and \<^verbatim>\<open>importEta\<close> of the legacy shape; \<open>None\<close> is an absent field.
\<close>

record chemical =
  chem_id :: string
  name :: string
  category :: string
  unit :: "string option"
  factoryStock :: "real option"
  localPurchase :: "real option"
  usePerDay :: "real option"
  chem_imports :: imports_field
  chem_import :: "real option"
  importEta :: "string option"
  chem_notes :: string
  lastUpdated :: string

text \<open>\<^verbatim>\<open>x || 0\<close> on a numeric field.\<close>

definition orZero :: "real option \<Rightarrow> real" where
  "orZero x = (case x of None \<Rightarrow> 0 | Some v \<Rightarrow> v)"

text \<open>\<^verbatim>\<open>c.imports || []\<close>.\<close>

definition orEmpty :: "imports_field \<Rightarrow> shipment list" where
  "orEmpty f = (case f of Arr xs \<Rightarrow> xs | _ \<Rightarrow> [])"

text \<open>\<^verbatim>\<open>c.unit || 'bags'\<close>: the empty string is falsy.\<close>

definition orBags :: "string option \<Rightarrow> string" where
  "orBags u = (case u of None \<Rightarrow> ''bags'' | Some s \<Rightarrow> if s = [] then ''bags'' else s)"

text \<open>
  \<^verbatim>\<open>x || null\<close> on a string field, and with it the test \<^verbatim>\<open>if (x)\<close>: a string is truthy
  when it is not empty.
\<close>

definition orNull :: "string option \<Rightarrow> string option" where
  "orNull x = (case x of None \<Rightarrow> None | Some s \<Rightarrow> if s = [] then None else Some s)"

subsection \<open>Migration\<close>

text \<open>
  The single entry both migrations build from the legacy fields:
  \<^verbatim>\<open>oldQty = c['import'] || 0\<close>, \<^verbatim>\<open>oldEta = c.importEta || null\<close>, and the entry
  \<^verbatim>\<open>{ qty: oldQty, eta: oldEta, label: '' }\<close> is pushed only if \<^verbatim>\<open>oldQty > 0\<close>.
\<close>

definition legacyImports :: "chemical \<Rightarrow> shipment list" where
  "legacyImports chem =
     (let oldQty = orZero (chem_import chem);
          oldEta = orNull (importEta chem)
      in if oldQty > 0 then [\<lparr>qty = Some oldQty, eta = oldEta, label = Some ''''\<rparr>] else [])"

text \<open>
  \<^verbatim>\<open>migrateChemical\<close> of \<^verbatim>\<open>utils/calculations.js\<close>: a chemical whose \<^verbatim>\<open>imports\<close> is
  not \<^verbatim>\<open>undefined\<close> is returned as it is; otherwise a copy gets the new \<^verbatim>\<open>imports\<close>
  and loses the two legacy fields. The unit is not touched.
\<close>

definition migrateChemical :: "chemical \<Rightarrow> chemical" where
  "migrateChemical chem =
     (if chem_imports chem \<noteq> Undefined then chem
      else chem\<lparr>chem_imports := Arr (legacyImports chem),
                chem_import := None, importEta := None\<rparr>)"

text \<open>
  \<^verbatim>\<open>migrateChemical\<close> of \<^verbatim>\<open>server.js\<close> and of \<^verbatim>\<open>api/_storage.js\<close> (the two are the
  same function): the value of the object it returns. With \<^verbatim>\<open>imports\<close> present the
  unit \<^verbatim>\<open>'kg'\<close> becomes \<^verbatim>\<open>'bags'\<close>; for a legacy chemical the unit becomes
  \<^verbatim>\<open>c.unit === 'kg' ? 'bags' : (c.unit || 'bags')\<close>.
\<close>

definition storage_migrateChemical :: "chemical \<Rightarrow> chemical" where
  "storage_migrateChemical c =
     (if chem_imports c \<noteq> Undefined then
        (if unit c = Some ''kg'' then c\<lparr>unit := Some ''bags''\<rparr> else c)
      else c\<lparr>chem_imports := Arr (legacyImports c),
             unit := Some (if unit c = Some ''kg'' then ''bags'' else orBags (unit c)),
             chem_import := None, importEta := None\<rparr>)"

subsection \<open>Objects and references\<close>

text \<open>
  Where it matters whether a function returns its argument, a copy, or changes its
  argument in place, objects live in a store: a list of objects, a reference being an
  index into it. Allocation appends. A reference outside the store stands for an argument
  that is no object: the source throws a \<^verbatim>\<open>TypeError\<close> when it reads a field of it,
  the result is \<open>None\<close>.
\<close>

type_synonym ref = nat

type_synonym 'o store = "'o list"

definition alloc :: "'o store \<Rightarrow> 'o \<Rightarrow> 'o store \<times> ref" where
  "alloc h ob = (h @ [ob], length h)"

definition lookup :: "'o store \<Rightarrow> ref \<Rightarrow> 'o option" where
  "lookup h r = (if r < length h then Some (h ! r) else None)"

subsection \<open>Timeline segments and derived values\<close>

text \<open>
  \<^verbatim>\<open>shipLabel = imp.label || `Import ${idx + 1}`\<close>: the label the user gave, or the
  position of the shipment in the processing order.
\<close>

datatype shiplabel = Given string | ImportNo nat

text \<open>
  The label of a segment is a display string assembled from values; the model keeps the
  values, in the order of the template string, and leaves the formatting of numbers
  (\<^verbatim>\<open>toLocaleString\<close>) to the display:
  \<^item> \<^verbatim>\<open>`Factory + Local (${immediateStock} ${unit})`\<close>,
  \<^item> \<^verbatim>\<open>`GAP - Need ${Math.ceil(gapQty)} ${unit} (before ${shipLabel})`\<close>,
  \<^item> \<^verbatim>\<open>`${shipLabel} (${imp.qty} ${unit}) - ETA: ${imp.eta}`\<close>, or \<^verbatim>\<open>No ETA\<close>.
\<close>

datatype seglabel =
    FactoryLabel real string
  | GapLabel int string shiplabel
  | ImportLabel shiplabel real string "string option"

datatype segtype = Factory | Gap | Import

text \<open>
  A segment \<^verbatim>\<open>{ type, label, startDay, endDay, days, qty, eta }\<close>; only import
  segments carry an \<^verbatim>\<open>eta\<close>.
\<close>

record segment =
  segType :: segtype
  segLabel :: seglabel
  startDay :: real
  endDay :: real
  days :: real
  segQty :: real
  segEta :: "string option"

datatype status = Ok | Critical | Warning | Low

text \<open>The value of \<^verbatim>\<open>immediateDays\<close>, \<^verbatim>\<open>totalDays\<close> and \<^verbatim>\<open>totalMonths\<close>.\<close>

datatype daycount = Fin real | Infinity

text \<open>
  The object \<^verbatim>\<open>calculateChemical\<close> returns: \<^verbatim>\<open>{ ...c, totalImport, ... }\<close>, where
  \<open>base\<close> holds the fields spread from the migrated chemical. \<^verbatim>\<open>timelineEndDay\<close> is
  absent from the object returned for \<^verbatim>\<open>usePerDay === 0\<close>.
\<close>

record derived =
  base :: chemical
  totalImport :: real
  total :: real
  immediateStock :: real
  immediateDays :: daycount
  totalDays :: daycount
  totalMonths :: daycount
  status :: status
  gapDays :: real
  gapQty :: real
  timeline :: "segment list"
  timelineEndDay :: "real option"

subsection \<open>Date difference\<close>

text \<open>
  \<^verbatim>\<open>diffInDays(fromDate, toDate)\<close>: with \<^verbatim>\<open>from = new Date(fromDate)\<close> and
  \<^verbatim>\<open>to = new Date(toDate)\<close> it returns \<^verbatim>\<open>Math.ceil((to - from) / (1000 * 60 * 60 * 24))\<close>.
  When one of the two dates is invalid, the difference and the result are \<^verbatim>\<open>NaN\<close>: the
  result \<open>None\<close>.
\<close>

definition diffInDays :: "(string \<Rightarrow> timestamp option) \<Rightarrow> string \<Rightarrow> string \<Rightarrow> int option" where
  "diffInDays dateOf fromDate toDate =
     (case dateOf fromDate of
        None \<Rightarrow> None
      | Some from \<Rightarrow>
          (case dateOf toDate of
             None \<Rightarrow> None
           | Some to \<Rightarrow> Some \<lceil>real_of_int (to - from) / (1000 * 60 * 60 * 24)\<rceil>))"

subsection \<open>Processing order of the shipments\<close>

text \<open>
  The comparator \<^verbatim>\<open>a.eta.localeCompare(b.eta)\<close> compares the \<^verbatim>\<open>eta\<close> strings of two
  shipments, that is, their collation keys. It reads the \<^verbatim>\<open>eta\<close> of shipments that passed
  the filter \<^verbatim>\<open>i.eta\<close>, so the \<open>None\<close> case of \<open>etaString\<close> is never reached.
\<close>

definition etaString :: "shipment \<Rightarrow> string" where
  "etaString i = (case eta i of Some s \<Rightarrow> s | None \<Rightarrow> [])"

definition etaKey :: "(string \<Rightarrow> 'k) \<Rightarrow> shipment \<Rightarrow> 'k" where
  "etaKey keyOf i = keyOf (etaString i)"

text \<open>
  \<^verbatim>\<open>imports.filter(i => (i.qty || 0) > 0 && i.eta).sort(...)\<close>. \<^verbatim>\<open>Array.prototype.sort\<close>
  is stable, as is the insertion sort \<^const>\<open>sort_key\<close>. It sorts in place the new array
  that \<^verbatim>\<open>filter\<close> returned; the array of the chemical is only read.
\<close>

definition withEta :: "(string \<Rightarrow> 'k::linorder) \<Rightarrow> shipment list \<Rightarrow> shipment list" where
  "withEta keyOf imports =
     sort_key (etaKey keyOf)
       (filter (\<lambda>i. orZero (qty i) > 0 \<and> orNull (eta i) \<noteq> None) imports)"

text \<open>\<^verbatim>\<open>imports.filter(i => (i.qty || 0) > 0 && !i.eta)\<close>.\<close>

definition withoutEta :: "shipment list \<Rightarrow> shipment list" where
  "withoutEta imports = filter (\<lambda>i. orZero (qty i) > 0 \<and> orNull (eta i) = None) imports"

definition sortedImports :: "(string \<Rightarrow> 'k::linorder) \<Rightarrow> shipment list \<Rightarrow> shipment list" where
  "sortedImports keyOf imports = withEta keyOf imports @ withoutEta imports"

subsection \<open>The loop over the shipments\<close>

text \<open>The variables the loop of \<^verbatim>\<open>calculateChemical\<close> updates.\<close>

record loopState =
  cursor :: real
  totalGapDays :: real
  totalGapQty :: real
  segments :: "segment list"

definition shipLabel :: "nat \<Rightarrow> shipment \<Rightarrow> shiplabel" where
  "shipLabel idx imp =
     (case label imp of
        Some l \<Rightarrow> if l = [] then ImportNo (idx + 1) else Given l
      | None \<Rightarrow> ImportNo (idx + 1))"

text \<open>
  The gap branch of the loop body, taken when \<^verbatim>\<open>cursor < etaDay\<close>: the totals grow,
  a gap segment is pushed and the cursor moves to \<^verbatim>\<open>etaDay\<close>.
\<close>

definition pushGap :: "real \<Rightarrow> string \<Rightarrow> shiplabel \<Rightarrow> real \<Rightarrow> loopState \<Rightarrow> loopState" where
  "pushGap usePerDay' unit' lbl etaDay st =
     (let gapDays' = etaDay - cursor st;
          gapQty' = gapDays' * usePerDay'
      in \<lparr>cursor = etaDay,
          totalGapDays = totalGapDays st + gapDays',
          totalGapQty = totalGapQty st + gapQty',
          segments = segments st @
            [\<lparr>segType = Gap, segLabel = GapLabel \<lceil>gapQty'\<rceil> unit' lbl,
              startDay = cursor st, endDay = etaDay, days = gapDays', segQty = gapQty',
              segEta = None\<rparr>]\<rparr>)"

text \<open>Pushing the import segment and advancing the cursor, the end of both branches.\<close>

definition pushImport :: "string \<Rightarrow> shiplabel \<Rightarrow> real \<Rightarrow> real \<Rightarrow> string option \<Rightarrow> loopState \<Rightarrow> loopState" where
  "pushImport unit' lbl importDays q e st =
     st\<lparr>cursor := cursor st + importDays,
        segments := segments st @
          [\<lparr>segType = Import, segLabel = ImportLabel lbl q unit' e,
            startDay = cursor st, endDay = cursor st + importDays, days = importDays,
            segQty = q, segEta = e\<rparr>]\<rparr>"

text \<open>
  One iteration, for the shipment \<open>imp\<close> at index \<open>idx\<close> of the processing order.
  \<^verbatim>\<open>imp.qty\<close> is read without a default: the filter has let only shipments with a
  positive quantity through. \<^verbatim>\<open>etaDay = Math.max(0, etaDaysFromNow)\<close> is \<^verbatim>\<open>NaN\<close> when
  the day difference is, and \<^verbatim>\<open>cursor < NaN\<close> is false: no gap is pushed then. The import
  segment of a shipment with an \<^verbatim>\<open>eta\<close> carries the \<^verbatim>\<open>eta\<close> string, the one of a shipment
  without carries \<^verbatim>\<open>null\<close>.
\<close>

definition loopBody ::
  "(string \<Rightarrow> timestamp option) \<Rightarrow> real \<Rightarrow> string \<Rightarrow> string \<Rightarrow> nat \<Rightarrow> shipment \<Rightarrow> loopState \<Rightarrow> loopState" where
  "loopBody dateOf usePerDay' today unit' idx imp st =
     (let importDays = orZero (qty imp) / usePerDay';
          lbl = shipLabel idx imp
      in case orNull (eta imp) of
           Some s \<Rightarrow>
             (let etaDaysFromNow = diffInDays dateOf today s;
                  st1 = (case etaDaysFromNow of
                           None \<Rightarrow> st
                         | Some n \<Rightarrow>
                             (let etaDay = real_of_int (max 0 n)
                              in if cursor st < etaDay
                                 then pushGap usePerDay' unit' lbl etaDay st else st))
              in pushImport unit' lbl importDays (orZero (qty imp)) (Some s) st1)
         | None \<Rightarrow> pushImport unit' lbl importDays (orZero (qty imp)) None st)"

text \<open>\<^verbatim>\<open>for (let idx = 0; idx < sortedImports.length; idx++)\<close>, from index \<open>idx\<close> on.\<close>

fun importLoop ::
  "(string \<Rightarrow> timestamp option) \<Rightarrow> real \<Rightarrow> string \<Rightarrow> string \<Rightarrow> nat \<Rightarrow> shipment list \<Rightarrow> loopState \<Rightarrow> loopState" where
  "importLoop dateOf usePerDay' today unit' idx [] st = st"
| "importLoop dateOf usePerDay' today unit' idx (imp # rest) st =
     importLoop dateOf usePerDay' today unit' (Suc idx) rest
       (loopBody dateOf usePerDay' today unit' idx imp st)"

text \<open>
  The state in which the loop starts: the segment of the stock at hand, if there is any,
  and the cursor behind it.
\<close>

definition initialState :: "real \<Rightarrow> real \<Rightarrow> string \<Rightarrow> loopState" where
  "initialState immediateStock' immediateDays' unit' =
     (if immediateStock' > 0 then
        \<lparr>cursor = immediateDays', totalGapDays = 0, totalGapQty = 0,
         segments =
           [\<lparr>segType = Factory, segLabel = FactoryLabel immediateStock' unit',
             startDay = 0, endDay = immediateDays', days = immediateDays',
             segQty = immediateStock', segEta = None\<rparr>]\<rparr>
      else \<lparr>cursor = 0, totalGapDays = 0, totalGapQty = 0, segments = []\<rparr>)"

subsection \<open>calculateChemical\<close>

text \<open>
  The body of \<^verbatim>\<open>calculateChemical\<close> after \<^verbatim>\<open>const c = migrateChemical(chem)\<close>.
  \<^verbatim>\<open>reduce\<close> is a left fold from \<open>0\<close>.
\<close>

definition calculateMigrated ::
  "(string \<Rightarrow> timestamp option) \<Rightarrow> (string \<Rightarrow> 'k::linorder) \<Rightarrow> chemical \<Rightarrow> string \<Rightarrow> derived" where
  "calculateMigrated dateOf keyOf c today =
     (let usePerDay' = orZero (usePerDay c);
          imports = orEmpty (chem_imports c);
          totalImport' = foldl (\<lambda>sum i. sum + orZero (qty i)) 0 imports;
          factoryStock' = orZero (factoryStock c);
          localPurchase' = orZero (localPurchase c);
          total' = factoryStock' + totalImport' + localPurchase';
          immediateStock' = factoryStock' + localPurchase';
          unit' = orBags (unit c)
      in if usePerDay' = 0 then
           \<lparr>base = c, totalImport = totalImport', total = total',
            immediateStock = immediateStock',
            immediateDays = Infinity, totalDays = Infinity, totalMonths = Infinity,
            status = Ok, gapDays = 0, gapQty = 0, timeline = [], timelineEndDay = None\<rparr>
         else
           (let immediateDays' = immediateStock' / usePerDay';
                st = importLoop dateOf usePerDay' today unit' 0 (sortedImports keyOf imports)
                       (initialState immediateStock' immediateDays' unit');
                totalDays' = total' / usePerDay';
                totalMonths' = totalDays' / 30;
                status0 = (if immediateDays' \<le> 3 then Critical
                           else if immediateDays' \<le> 10 then Warning
                           else if immediateDays' \<le> 20 then Low
                           else Ok);
                status' = (if totalGapDays st > 0 \<and> status0 = Ok then Warning else status0)
            in \<lparr>base = c, totalImport = totalImport', total = total',
                immediateStock = immediateStock',
                immediateDays = Fin immediateDays', totalDays = Fin totalDays',
                totalMonths = Fin totalMonths',
                status = status', gapDays = totalGapDays st, gapQty = totalGapQty st,
                timeline = segments st, timelineEndDay = Some (cursor st)\<rparr>))"

definition calculateChemical ::
  "(string \<Rightarrow> timestamp option) \<Rightarrow> (string \<Rightarrow> 'k::linorder) \<Rightarrow> chemical \<Rightarrow> string \<Rightarrow> derived" where
  "calculateChemical dateOf keyOf chem today =
     calculateMigrated dateOf keyOf (migrateChemical chem) today"

subsection \<open>calculateAll\<close>

record summary =
  sum_total :: nat
  sum_critical :: nat
  sum_warning :: nat
  sum_low :: nat
  sum_ok :: nat
  sum_withGaps :: nat

record portfolio =
  chemicals :: "derived list"
  summary :: summary
  criticalItems :: "derived list"
  warningItems :: "derived list"
  gapItems :: "derived list"

definition calculateAll ::
  "(string \<Rightarrow> timestamp option) \<Rightarrow> (string \<Rightarrow> 'k::linorder) \<Rightarrow> chemical list \<Rightarrow> string \<Rightarrow> portfolio" where
  "calculateAll dateOf keyOf chems today =
     (let calculated = map (\<lambda>c. calculateChemical dateOf keyOf c today) chems;
          critical = filter (\<lambda>c. status c = Critical) calculated;
          warning = filter (\<lambda>c. status c = Warning) calculated;
          low = filter (\<lambda>c. status c = Low) calculated;
          ok = filter (\<lambda>c. status c = Ok) calculated;
          withGaps = filter (\<lambda>c. gapDays c > 0) calculated
      in \<lparr>chemicals = calculated,
          summary = \<lparr>sum_total = length calculated, sum_critical = length critical,
                     sum_warning = length warning, sum_low = length low,
                     sum_ok = length ok, sum_withGaps = length withGaps\<rparr>,
          criticalItems = critical, warningItems = warning, gapItems = withGaps\<rparr>)"

subsection \<open>The three functions on references\<close>

text \<open>
  Chemicals and derived objects are kept in two stores. \<^verbatim>\<open>migrateChemical\<close> of
  \<^verbatim>\<open>utils/calculations.js\<close> returns its argument (\<^verbatim>\<open>return chem\<close>) or a new object
  (\<^verbatim>\<open>{ ...chem, imports }\<close>, from which the legacy fields are deleted); it never writes
  to \<^verbatim>\<open>chem\<close>.
\<close>

definition migrateChemical_ref :: "chemical store \<Rightarrow> ref \<Rightarrow> (chemical store \<times> ref) option" where
  "migrateChemical_ref h r =
     (case lookup h r of
        None \<Rightarrow> None
      | Some chem \<Rightarrow>
          if chem_imports chem \<noteq> Undefined then Some (h, r)
          else Some (alloc h (migrateChemical chem)))"

text \<open>
  \<^verbatim>\<open>migrateChemical\<close> of the storage layer writes the unit into its argument
  (\<^verbatim>\<open>if (c.unit === 'kg') c.unit = 'bags'; return c;\<close>) when \<^verbatim>\<open>imports\<close> is present, and
  builds a new object otherwise.
\<close>

definition storage_migrateChemical_ref :: "chemical store \<Rightarrow> ref \<Rightarrow> (chemical store \<times> ref) option" where
  "storage_migrateChemical_ref h r =
     (case lookup h r of
        None \<Rightarrow> None
      | Some c \<Rightarrow>
          if chem_imports c \<noteq> Undefined then
            (if unit c = Some ''kg'' then Some (h[r := c\<lparr>unit := Some ''bags''\<rparr>], r)
             else Some (h, r))
          else Some (alloc h (storage_migrateChemical c)))"

record heap =
  chemObjs :: "chemical store"
  derivedObjs :: "derived store"

text \<open>
  \<^verbatim>\<open>calculateChemical\<close>: migrate, read the migrated chemical, return a new object.
\<close>

definition calculateChemical_ref ::
  "(string \<Rightarrow> timestamp option) \<Rightarrow> (string \<Rightarrow> 'k::linorder) \<Rightarrow> heap \<Rightarrow> ref \<Rightarrow> string \<Rightarrow> (heap \<times> ref) option" where
  "calculateChemical_ref dateOf keyOf h r today =
     (case migrateChemical_ref (chemObjs h) r of
        None \<Rightarrow> None
      | Some (cs, rc) \<Rightarrow>
          (case lookup cs rc of
             None \<Rightarrow> None
           | Some c \<Rightarrow>
               (let (ds, rd) = alloc (derivedObjs h) (calculateMigrated dateOf keyOf c today)
                in Some (\<lparr>chemObjs = cs, derivedObjs = ds\<rparr>, rd))))"

subsection \<open>The status rule as the specification words it\<close>

text \<open>
  Classification by the days of immediate stock, then the gap rule: a status that would be
  \<open>Ok\<close> becomes \<open>Warning\<close> when there are gap days.
\<close>

definition spec_status :: "real \<Rightarrow> real \<Rightarrow> status" where
  "spec_status immediateDaysRemaining totalGapDays' =
     (if immediateDaysRemaining \<le> 3 then Critical
      else if immediateDaysRemaining \<le> 10 then Warning
      else if immediateDaysRemaining \<le> 20 then Low
      else if totalGapDays' > 0 then Warning
      else Ok)"

subsection \<open>Observing the loop\<close>

text \<open>
  The values \<^verbatim>\<open>calculateChemical\<close> computes before the loop, for a chemical with a
  consumption, and the state of the loop after its first \<open>k\<close> iterations.
\<close>

definition useOf :: "chemical \<Rightarrow> real" where
  "useOf c = orZero (usePerDay c)"

definition immediateOf :: "chemical \<Rightarrow> real" where
  "immediateOf c = orZero (factoryStock c) + orZero (localPurchase c)"

definition orderOf :: "(string \<Rightarrow> 'k::linorder) \<Rightarrow> chemical \<Rightarrow> shipment list" where
  "orderOf keyOf c = sortedImports keyOf (orEmpty (chem_imports (migrateChemical c)))"

definition stateAfter ::
  "(string \<Rightarrow> timestamp option) \<Rightarrow> (string \<Rightarrow> 'k::linorder) \<Rightarrow> chemical \<Rightarrow> string \<Rightarrow> nat \<Rightarrow> loopState" where
  "stateAfter dateOf keyOf c today k =
     importLoop dateOf (useOf c) today (orBags (unit c)) 0 (take k (orderOf keyOf c))
       (initialState (immediateOf c) (immediateOf c / useOf c) (orBags (unit c)))"

subsection \<open>An example host\<close>

text \<open>
  For the concrete inputs below: a host in the time zone UTC, on strings that are a year,
  a month and a day in decimal digits with \<^verbatim>\<open>-\<close> between them. \<open>utcDate\<close> is the time
  value \<^verbatim>\<open>new Date(s)\<close> has there, midnight of that day (any other string is taken
  as an invalid date); \<open>codeOrder\<close> orders strings character by character, \<^verbatim>\<open>-\<close>
  before the digits and the digits by value, as \<^verbatim>\<open>localeCompare\<close> orders such strings.
\<close>

definition day :: timestamp where
  "day = 1000 * 60 * 60 * 24"

definition digitsValue :: "string \<Rightarrow> nat option" where
  "digitsValue s =
     (if s \<noteq> [] \<and> list_all (\<lambda>c. 48 \<le> (of_char c :: nat) \<and> (of_char c :: nat) \<le> 57) s
      then Some (foldl (\<lambda>n c. 10 * n + (of_char c - 48)) 0 s) else None)"

fun splitDash :: "string \<Rightarrow> string list" where
  "splitDash [] = [[]]"
| "splitDash (c # cs) =
     (if c = CHR ''-'' then [] # splitDash cs
      else (case splitDash cs of f # fs \<Rightarrow> (c # f) # fs | [] \<Rightarrow> [[c]]))"

text \<open>The number of days from 1 January 1970 to a day of the Gregorian calendar.\<close>

definition daysFromCivil :: "int \<Rightarrow> int \<Rightarrow> int \<Rightarrow> int" where
  "daysFromCivil y m d =
     (let y' = (if m \<le> 2 then y - 1 else y);
          era = y' div 400;
          yoe = y' - era * 400;
          mp = (m + 9) mod 12;
          doy = (153 * mp + 2) div 5 + d - 1;
          doe = yoe * 365 + yoe div 4 - yoe div 100 + doy
      in era * 146097 + doe - 719468)"

definition utcDate :: "string \<Rightarrow> timestamp option" where
  "utcDate s =
     (case map digitsValue (splitDash s) of
        [Some y, Some m, Some d] \<Rightarrow>
          if 1 \<le> m \<and> m \<le> 12 \<and> 1 \<le> d \<and> d \<le> 31
          then Some (daysFromCivil (int y) (int m) (int d) * day) else None
      | _ \<Rightarrow> None)"

definition codeOrder :: "string \<Rightarrow> nat list" where
  "codeOrder s = map of_char s"

subsection \<open>Example chemicals\<close>

definition chemicalOf :: "real \<Rightarrow> real \<Rightarrow> real \<Rightarrow> shipment list \<Rightarrow> chemical" where
  "chemicalOf fs lp upd imps =
     \<lparr>chem_id = ''chem_1'', name = ''EVA'', category = ''Chemical'', unit = Some ''bags'',
      factoryStock = Some fs, localPurchase = Some lp, usePerDay = Some upd,
      chem_imports = Arr imps, chem_import = None, importEta = None,
      chem_notes = '''', lastUpdated = ''2024-01-01''\<rparr>"

definition dated :: "real \<Rightarrow> string \<Rightarrow> shipment" where
  "dated q s = \<lparr>qty = Some q, eta = Some s, label = Some ''''\<rparr>"

definition undated :: "real \<Rightarrow> shipment" where
  "undated q = \<lparr>qty = Some q, eta = None, label = Some ''''\<rparr>"

definition legacyChemical :: "string \<Rightarrow> real \<Rightarrow> chemical" where
  "legacyChemical u q =
     \<lparr>chem_id = ''chem_0'', name = ''EVR'', category = ''Chemical'', unit = Some u,
      factoryStock = Some 5, localPurchase = Some 0, usePerDay = Some 1,
      chem_imports = Undefined, chem_import = Some q, importEta = Some ''1970-01-04'',
      chem_notes = '''', lastUpdated = ''2024-01-01''\<rparr>"

subsection \<open>Contiguous lists of segments\<close>

text \<open>
  \<open>chained s gs\<close>: the segments \<open>gs\<close> follow one another from day \<open>s\<close> on, each starting
  where the one before ends. \<open>chainEnd s gs\<close> is the day the last of them ends (\<open>s\<close> if
  there is none). \<open>forward gs\<close>: no segment ends before it starts.
\<close>

fun chained :: "real \<Rightarrow> segment list \<Rightarrow> bool" where
  "chained s [] = True"
| "chained s (g # gs) = (startDay g = s \<and> chained (endDay g) gs)"

fun chainEnd :: "real \<Rightarrow> segment list \<Rightarrow> real" where
  "chainEnd s [] = s"
| "chainEnd s (g # gs) = chainEnd (endDay g) gs"

definition forward :: "segment list \<Rightarrow> bool" where
  "forward gs = list_all (\<lambda>g. startDay g \<le> endDay g) gs"

definition gapSegments :: "segment list \<Rightarrow> segment list" where
  "gapSegments gs = filter (\<lambda>g. segType g = Gap) gs"

subsection \<open>Invariants of the loop\<close>

text \<open>
  \<open>chainInv\<close>: the segments pushed so far are contiguous from day \<open>0\<close> and end at the
  cursor. \<open>gapInv\<close>: the two gap totals are the sums over the gap segments pushed so far.
\<close>

definition chainInv :: "loopState \<Rightarrow> bool" where
  "chainInv st = (chained 0 (segments st) \<and> chainEnd 0 (segments st) = cursor st)"

definition gapInv :: "loopState \<Rightarrow> bool" where
  "gapInv st = (totalGapDays st = sum_list (map days (gapSegments (segments st))) \<and>
     totalGapQty st = sum_list (map segQty (gapSegments (segments st))))"


section \<open>Properties\<close>

subsection \<open>Unfolding the model on concrete inputs\<close>

lemmas eval_defs =
  calculateChemical_def calculateMigrated_def migrateChemical_def orZero_def orEmpty_def
  orBags_def sortedImports_def withEta_def withoutEta_def etaKey_def loopBody_def pushGap_def
  pushImport_def shipLabel_def initialState_def diffInDays_def chemicalOf_def dated_def
  undated_def day_def useOf_def immediateOf_def orderOf_def stateAfter_def gapSegments_def Let_def
  orNull_def etaString_def utcDate_def digitsValue_def daysFromCivil_def codeOrder_def

subsection \<open>Migration\<close>

lemma migrateChemical_fields:
  "usePerDay (migrateChemical c) = usePerDay c"
  "factoryStock (migrateChemical c) = factoryStock c"
  "localPurchase (migrateChemical c) = localPurchase c"
  "unit (migrateChemical c) = unit c"
  "chem_id (migrateChemical c) = chem_id c"
  by (simp_all add: migrateChemical_def)

text \<open>
  Claim C8. Migrating a migrated record changes nothing: \<open>migrate (migrate x) = migrate x\<close>
  for every record \<open>x\<close>, for the migration of the calculation module and for the one of the
  storage layer.
\<close>

theorem migrate_idempotent:
  "migrateChemical (migrateChemical x) = migrateChemical x \<and>
   storage_migrateChemical (storage_migrateChemical x) = storage_migrateChemical x"
  by (simp add: migrateChemical_def storage_migrateChemical_def orBags_def split: option.splits)

text \<open>
  Claim C7, as the two migrations implement it. A record that has an \<^verbatim>\<open>imports\<close> field is
  returned unchanged by the migration of the calculation module, and unchanged but for the
  unit \<^verbatim>\<open>kg\<close>, which becomes \<^verbatim>\<open>bags\<close>, by the migration of the storage layer. For a legacy
  record both build \<^verbatim>\<open>imports\<close> with the one entry \<^verbatim>\<open>{qty, eta, label: ''}\<close> when the
  legacy quantity is positive and with no entry otherwise, and remove the two legacy fields;
  the storage layer also sets the unit (\<^verbatim>\<open>kg\<close> and a missing or empty unit become
  \<^verbatim>\<open>bags\<close>), the calculation module leaves it as it is.
\<close>

theorem migrate_cases:
  "(chem_imports c \<noteq> Undefined \<longrightarrow>
      migrateChemical c = c \<and>
      storage_migrateChemical c = (if unit c = Some ''kg'' then c\<lparr>unit := Some ''bags''\<rparr> else c))
   \<and> (chem_imports c = Undefined \<longrightarrow>
      migrateChemical c =
        c\<lparr>chem_imports :=
            Arr (if 0 < orZero (chem_import c)
                 then [\<lparr>qty = Some (orZero (chem_import c)), eta = orNull (importEta c), label = Some ''''\<rparr>]
                 else []),
          chem_import := None, importEta := None\<rparr> \<and>
      storage_migrateChemical c =
        (migrateChemical c)\<lparr>unit := Some (if unit c = Some ''kg'' then ''bags'' else orBags (unit c))\<rparr>)"
  by (simp add: migrateChemical_def storage_migrateChemical_def legacyImports_def Let_def)

theorem migrate_cases_witness:
  "chem_imports (chemicalOf 1 0 1 []) \<noteq> Undefined \<and>
   migrateChemical (chemicalOf 1 0 1 []) = chemicalOf 1 0 1 [] \<and>
   chem_imports (legacyChemical ''kg'' 40) = Undefined \<and>
   chem_imports (migrateChemical (legacyChemical ''kg'' 40)) = Arr [\<lparr>qty = Some 40, eta = Some ''1970-01-04'', label = Some ''''\<rparr>] \<and>
   unit (migrateChemical (legacyChemical ''kg'' 40)) = Some ''kg'' \<and>
   unit (storage_migrateChemical (legacyChemical ''kg'' 40)) = Some ''bags'' \<and>
   chem_imports (storage_migrateChemical (legacyChemical ''kg'' 0)) = Arr []"
  using migrate_cases [of "chemicalOf 1 0 1 []"] migrate_cases [of "legacyChemical ''kg'' 40"]
    migrate_cases [of "legacyChemical ''kg'' 0"]
  by (simp add: chemicalOf_def legacyChemical_def orZero_def orNull_def)

text \<open>
  Claim C7 as it is worded fails for the migration of the calculation module, which does
  not normalise the unit: a record with an \<^verbatim>\<open>imports\<close> field and the unit \<^verbatim>\<open>kg\<close> keeps
  the unit \<^verbatim>\<open>kg\<close>.
\<close>

theorem migrate_keeps_kg:
  "chem_imports ((chemicalOf 1 0 1 [])\<lparr>unit := Some ''kg''\<rparr>) \<noteq> Undefined \<and>
   unit (migrateChemical ((chemicalOf 1 0 1 [])\<lparr>unit := Some ''kg''\<rparr>)) = Some ''kg'' \<and>
   unit (migrateChemical ((chemicalOf 1 0 1 [])\<lparr>unit := Some ''kg''\<rparr>)) \<noteq> Some ''bags''"
  by (simp add: chemicalOf_def migrateChemical_def)

text \<open>
  On references: both migrations return a reference to an object whose value is the one the
  functions on values give. The calculation module leaves every object of the store as it
  was.
\<close>

lemma migrateChemical_ref_value:
  assumes "lookup h r = Some chem"
  shows "\<exists>h' r'. migrateChemical_ref h r = Some (h', r') \<and>
           lookup h' r' = Some (migrateChemical chem) \<and>
           take (length h) h' = h \<and> length h \<le> length h'"
  using assms
  by (auto simp add: migrateChemical_ref_def alloc_def lookup_def migrateChemical_def
      split: if_splits)

lemma storage_migrateChemical_ref_value:
  assumes "lookup h r = Some c"
  shows "\<exists>h' r'. storage_migrateChemical_ref h r = Some (h', r') \<and>
           lookup h' r' = Some (storage_migrateChemical c)"
  using assms
  by (auto simp add: storage_migrateChemical_ref_def alloc_def lookup_def storage_migrateChemical_def
      split: if_splits)

text \<open>
  Migrating the reference a migration returned gives the same reference and leaves the
  store as it is.
\<close>

lemma migrateChemical_ref_again:
  assumes "migrateChemical_ref h r = Some (h', r')"
  shows "migrateChemical_ref h' r' = Some (h', r')"
  using assms
  by (auto simp add: migrateChemical_ref_def alloc_def lookup_def migrateChemical_def nth_append
      split: option.splits if_splits)

lemma storage_migrateChemical_ref_again:
  assumes "storage_migrateChemical_ref h r = Some (h', r')"
  shows "storage_migrateChemical_ref h' r' = Some (h', r')"
  using assms
  by (auto simp add: storage_migrateChemical_ref_def alloc_def lookup_def storage_migrateChemical_def
      nth_append orBags_def split: option.splits if_splits)

subsection \<open>No consumption\<close>

text \<open>
  Claim C1. For a chemical whose \<^verbatim>\<open>usePerDay\<close> is \<open>0\<close> (or missing), the result has the
  status \<open>Ok\<close>, the three day and month values are \<open>Infinity\<close>, the gap days and the gap
  quantity are \<open>0\<close> and the timeline is empty.
\<close>

theorem no_consumption:
  assumes "orZero (usePerDay c) = 0"
  shows "status (calculateChemical dateOf keyOf c today) = Ok \<and>
         immediateDays (calculateChemical dateOf keyOf c today) = Infinity \<and>
         totalDays (calculateChemical dateOf keyOf c today) = Infinity \<and>
         totalMonths (calculateChemical dateOf keyOf c today) = Infinity \<and>
         gapDays (calculateChemical dateOf keyOf c today) = 0 \<and>
         gapQty (calculateChemical dateOf keyOf c today) = 0 \<and>
         timeline (calculateChemical dateOf keyOf c today) = []"
  using assms
  by (simp add: calculateChemical_def calculateMigrated_def migrateChemical_fields Let_def)

theorem no_consumption_witness:
  "orZero (usePerDay (chemicalOf 30 5 0 [dated 100 ''1970-01-06''])) = 0 \<and>
   status (calculateChemical utcDate codeOrder (chemicalOf 30 5 0 [dated 100 ''1970-01-06'']) ''1970-01-01'') = Ok \<and>
   immediateDays (calculateChemical utcDate codeOrder (chemicalOf 30 5 0 [dated 100 ''1970-01-06'']) ''1970-01-01'') = Infinity \<and>
   timeline (calculateChemical utcDate codeOrder (chemicalOf 30 5 0 [dated 100 ''1970-01-06'']) ''1970-01-01'') = []"
proof -
  have h: "orZero (usePerDay (chemicalOf 30 5 0 [dated 100 ''1970-01-06''])) = 0"
    by (simp add: chemicalOf_def orZero_def)
  show ?thesis
    using h no_consumption [OF h, where dateOf = utcDate and keyOf = codeOrder and today = "''1970-01-01''"]
    by simp
qed

subsection \<open>Status\<close>

lemma calculateChemical_status:
  assumes "useOf c \<noteq> 0"
  shows "immediateDays (calculateChemical dateOf keyOf c today) = Fin (immediateOf c / useOf c)"
    and "status (calculateChemical dateOf keyOf c today) =
           spec_status (immediateOf c / useOf c) (gapDays (calculateChemical dateOf keyOf c today))"
  using assms
  by (simp_all add: calculateChemical_def calculateMigrated_def migrateChemical_fields Let_def
      useOf_def immediateOf_def spec_status_def)

text \<open>
  Claim C2. For a chemical with a positive \<^verbatim>\<open>usePerDay\<close> the status is decided by the days
  of immediate stock: at most \<open>3\<close> is \<open>Critical\<close>, otherwise at most \<open>10\<close> is \<open>Warning\<close>,
  otherwise at most \<open>20\<close> is \<open>Low\<close>, otherwise \<open>Ok\<close>; and a status that would be \<open>Ok\<close>
  becomes \<open>Warning\<close> when there are gap days, which is all the gap rule does.
\<close>

theorem status_thresholds:
  assumes "0 < orZero (usePerDay c)"
  shows "immediateDays (calculateChemical dateOf keyOf c today) = Fin (immediateOf c / useOf c) \<and>
         status (calculateChemical dateOf keyOf c today) =
           spec_status (immediateOf c / useOf c) (gapDays (calculateChemical dateOf keyOf c today)) \<and>
         status (calculateChemical dateOf keyOf c today) =
           (if immediateOf c / useOf c \<le> 3 then Critical
            else if immediateOf c / useOf c \<le> 10 then Warning
            else if immediateOf c / useOf c \<le> 20 then Low
            else if gapDays (calculateChemical dateOf keyOf c today) > 0 then Warning
            else Ok)"
proof -
  from assms have u: "useOf c \<noteq> 0" by (simp add: useOf_def)
  show ?thesis
    using calculateChemical_status [OF u, of dateOf keyOf today] by (simp add: spec_status_def)
qed

theorem status_thresholds_witness:
  "0 < orZero (usePerDay (chemicalOf 30 0 10 [])) \<and>
   status (calculateChemical utcDate codeOrder (chemicalOf 30 0 10 []) ''1970-01-01'') = Critical \<and>
   status (calculateChemical utcDate codeOrder (chemicalOf 301 0 100 []) ''1970-01-01'') = Warning \<and>
   status (calculateChemical utcDate codeOrder (chemicalOf 100 0 10 []) ''1970-01-01'') = Warning \<and>
   status (calculateChemical utcDate codeOrder (chemicalOf 200 0 10 []) ''1970-01-01'') = Low \<and>
   status (calculateChemical utcDate codeOrder (chemicalOf 2001 0 100 []) ''1970-01-01'') = Ok \<and>
   status (calculateChemical utcDate codeOrder (chemicalOf 250 0 10 [dated 100 ''1970-02-20'']) ''1970-01-01'') = Warning \<and>
   status (calculateChemical utcDate codeOrder (chemicalOf 30 0 10 [dated 100 ''1970-01-06'']) ''1970-01-01'') = Critical"
proof -
  have h: "0 < orZero (usePerDay (chemicalOf a b 10 xs))" "0 < orZero (usePerDay (chemicalOf a b 100 xs))"
    for a b xs
    by (simp_all add: chemicalOf_def orZero_def)
  have g1: "gapDays (calculateChemical utcDate codeOrder (chemicalOf 2001 0 100 []) ''1970-01-01'') = 0"
    by (simp add: eval_defs)
  have g2: "gapDays (calculateChemical utcDate codeOrder (chemicalOf 250 0 10 [dated 100 ''1970-02-20'']) ''1970-01-01'') = 25"
    by (simp add: eval_defs)
  have i: "immediateOf (chemicalOf a b u xs) / useOf (chemicalOf a b u xs) = (a + b) / u" for a b u xs
    by (simp add: eval_defs)
  show ?thesis
    using h(1) [of 30 0 "[]"]
      status_thresholds [OF h(1) [of 30 0 "[]"], where dateOf = utcDate and keyOf = codeOrder
         and today = "''1970-01-01''"]
      status_thresholds [OF h(2) [of 301 0 "[]"], where dateOf = utcDate and keyOf = codeOrder
         and today = "''1970-01-01''"]
      status_thresholds [OF h(1) [of 100 0 "[]"], where dateOf = utcDate and keyOf = codeOrder
         and today = "''1970-01-01''"]
      status_thresholds [OF h(1) [of 200 0 "[]"], where dateOf = utcDate and keyOf = codeOrder
         and today = "''1970-01-01''"]
      status_thresholds [OF h(2) [of 2001 0 "[]"], where dateOf = utcDate and keyOf = codeOrder
         and today = "''1970-01-01''"]
      status_thresholds [OF h(1) [of 250 0 "[dated 100 ''1970-02-20'']"], where dateOf = utcDate and keyOf = codeOrder
         and today = "''1970-01-01''"]
      status_thresholds [OF h(1) [of 30 0 "[dated 100 ''1970-01-06'']"], where dateOf = utcDate and keyOf = codeOrder
         and today = "''1970-01-01''"]
    by (simp add: i g1 g2 spec_status_def)
qed

subsection \<open>Contiguous segments\<close>

lemma chained_append:
  "chained s (xs @ ys) = (chained s xs \<and> chained (chainEnd s xs) ys)"
  by (induction xs arbitrary: s) auto

lemma chainEnd_append:
  "chainEnd s (xs @ ys) = chainEnd (chainEnd s xs) ys"
  by (induction xs arbitrary: s) auto

lemma chained_hd: "chained s gs \<Longrightarrow> gs \<noteq> [] \<Longrightarrow> startDay (hd gs) = s"
  by (cases gs) auto

lemma chained_nth:
  "chained s gs \<Longrightarrow> Suc i < length gs \<Longrightarrow> startDay (gs ! Suc i) = endDay (gs ! i)"
proof (induction gs arbitrary: s i)
  case Nil
  then show ?case by simp
next
  case (Cons g gs)
  show ?case
  proof (cases i)
    case 0
    with Cons.prems show ?thesis by (cases gs) auto
  next
    case (Suc j)
    with Cons.prems Cons.IH [of "endDay g" j] show ?thesis by simp
  qed
qed

lemma chainEnd_last: "gs \<noteq> [] \<Longrightarrow> chainEnd s gs = endDay (last gs)"
  by (induction gs arbitrary: s) auto

lemma chained_forward_le:
  "chained s gs \<Longrightarrow> forward gs \<Longrightarrow> g \<in> set gs \<Longrightarrow> s \<le> startDay g \<and> startDay g \<le> endDay g"
proof (induction gs arbitrary: s)
  case Nil
  then show ?case by simp
next
  case (Cons a gs)
  show ?case
  proof (cases "g = a")
    case True
    with Cons.prems show ?thesis by (simp add: forward_def)
  next
    case False
    with Cons.prems have "g \<in> set gs" "chained (endDay a) gs" "forward gs" "s \<le> endDay a"
      by (simp_all add: forward_def)
    with Cons.IH [of "endDay a"] show ?thesis by fastforce
  qed
qed

lemma chained_forward_sorted: "chained s gs \<Longrightarrow> forward gs \<Longrightarrow> sorted (map startDay gs)"
proof (induction gs arbitrary: s)
  case Nil
  then show ?case by simp
next
  case (Cons a gs)
  from Cons.prems have c: "chained (endDay a) gs" and f: "forward gs"
    and le: "startDay a \<le> endDay a"
    by (simp_all add: forward_def)
  have "\<forall>g \<in> set gs. startDay a \<le> startDay g"
    using chained_forward_le [OF c f] le by fastforce
  with Cons.IH [OF c f] show ?case by simp
qed

subsection \<open>The loop keeps its invariants\<close>

lemma pushImport_chain:
  "chainInv st \<Longrightarrow> chainInv (pushImport un lbl importDays q e st)"
  by (simp add: chainInv_def pushImport_def chained_append chainEnd_append)

lemma pushGap_chain:
  "chainInv st \<Longrightarrow> chainInv (pushGap u un lbl etaDay st)"
  by (simp add: chainInv_def pushGap_def chained_append chainEnd_append Let_def)

lemma loopBody_chain:
  "chainInv st \<Longrightarrow> chainInv (loopBody dateOf u today un idx imp st)"
  by (simp add: loopBody_def Let_def pushImport_chain pushGap_chain split: option.splits)

lemma importLoop_chain:
  "chainInv st \<Longrightarrow> chainInv (importLoop dateOf u today un idx imps st)"
  by (induction imps arbitrary: idx st) (simp_all add: loopBody_chain)

lemma initialState_chain: "chainInv (initialState s d un)"
  by (simp add: chainInv_def initialState_def)

lemma pushImport_forward:
  "forward (segments st) \<Longrightarrow> 0 \<le> importDays \<Longrightarrow>
   forward (segments (pushImport un lbl importDays q e st))"
  by (simp add: pushImport_def forward_def)

lemma pushGap_forward:
  "forward (segments st) \<Longrightarrow> cursor st < etaDay \<Longrightarrow>
   forward (segments (pushGap u un lbl etaDay st))"
  by (simp add: pushGap_def forward_def Let_def)

lemma loopBody_forward:
  assumes "forward (segments st)" "0 < u" "0 \<le> orZero (qty imp)"
  shows "forward (segments (loopBody dateOf u today un idx imp st))"
proof -
  from assms have d: "0 \<le> orZero (qty imp) / u" by simp
  show ?thesis
    using assms(1) d
    by (auto simp add: loopBody_def Let_def pushImport_forward pushGap_forward split: option.splits)
qed

lemma importLoop_forward:
  "forward (segments st) \<Longrightarrow> 0 < u \<Longrightarrow> \<forall>i \<in> set imps. 0 \<le> orZero (qty i) \<Longrightarrow>
   forward (segments (importLoop dateOf u today un idx imps st))"
  by (induction imps arbitrary: idx st) (simp_all add: loopBody_forward)

lemma initialState_forward:
  "0 < u \<Longrightarrow> forward (segments (initialState s (s / u) un))"
  by (simp add: forward_def initialState_def)

lemma loopBody_gap:
  "gapInv st \<Longrightarrow> gapInv (loopBody dateOf u today un idx imp st)"
  by (simp add: loopBody_def Let_def gapInv_def pushImport_def pushGap_def gapSegments_def
      split: option.splits)

lemma importLoop_gap:
  "gapInv st \<Longrightarrow> gapInv (importLoop dateOf u today un idx imps st)"
  by (induction imps arbitrary: idx st) (simp_all add: loopBody_gap)

lemma initialState_gap: "gapInv (initialState s d un)"
  by (simp add: gapInv_def initialState_def gapSegments_def)

subsection \<open>The state after \<open>k\<close> shipments\<close>

lemma sortedImports_positive: "i \<in> set (sortedImports keyOf imps) \<Longrightarrow> 0 < orZero (qty i)"
  by (auto simp add: sortedImports_def withEta_def withoutEta_def)

lemma importLoop_append:
  "importLoop dateOf u today un idx (xs @ ys) st =
   importLoop dateOf u today un (idx + length xs) ys (importLoop dateOf u today un idx xs st)"
  by (induction xs arbitrary: idx st) simp_all

lemma stateAfter_Suc:
  assumes "k < length (orderOf keyOf c)"
  shows "stateAfter dateOf keyOf c today (Suc k) =
         loopBody dateOf (useOf c) today (orBags (unit c)) k (orderOf keyOf c ! k) (stateAfter dateOf keyOf c today k)"
  using assms
  by (simp add: stateAfter_def take_Suc_conv_app_nth importLoop_append min_def)

lemma calculateChemical_loop:
  assumes "useOf c \<noteq> 0"
  shows "timeline (calculateChemical dateOf keyOf c today) = segments (stateAfter dateOf keyOf c today (length (orderOf keyOf c)))"
    and "gapDays (calculateChemical dateOf keyOf c today) = totalGapDays (stateAfter dateOf keyOf c today (length (orderOf keyOf c)))"
    and "gapQty (calculateChemical dateOf keyOf c today) = totalGapQty (stateAfter dateOf keyOf c today (length (orderOf keyOf c)))"
    and "timelineEndDay (calculateChemical dateOf keyOf c today) = Some (cursor (stateAfter dateOf keyOf c today (length (orderOf keyOf c))))"
  using assms
  by (simp_all add: calculateChemical_def calculateMigrated_def migrateChemical_fields Let_def
      useOf_def immediateOf_def stateAfter_def orderOf_def)

lemma stateAfter_chain: "chainInv (stateAfter dateOf keyOf c today k)"
  unfolding stateAfter_def by (rule importLoop_chain) (rule initialState_chain)

lemma stateAfter_forward:
  assumes "0 < useOf c"
  shows "forward (segments (stateAfter dateOf keyOf c today k))"
  unfolding stateAfter_def
proof (rule importLoop_forward)
  show "forward (segments (initialState (immediateOf c) (immediateOf c / useOf c) (orBags (unit c))))"
    using assms by (rule initialState_forward)
  show "0 < useOf c" by (rule assms)
  show "\<forall>i\<in>set (take k (orderOf keyOf c)). 0 \<le> orZero (qty i)"
    using sortedImports_positive by (fastforce simp add: orderOf_def dest: in_set_takeD)
qed

lemma stateAfter_gap: "gapInv (stateAfter dateOf keyOf c today k)"
  unfolding stateAfter_def by (rule importLoop_gap) (rule initialState_gap)

lemma loopBody_dated:
  assumes "orNull (eta imp) = Some s" and "diffInDays dateOf today s = Some n"
  shows "loopBody dateOf u today un idx imp st =
           pushImport un (shipLabel idx imp) (orZero (qty imp) / u) (orZero (qty imp)) (Some s)
             (if cursor st < real_of_int (max 0 n)
              then pushGap u un (shipLabel idx imp) (real_of_int (max 0 n)) st
              else st)"
  using assms by (simp add: loopBody_def Let_def)

text \<open>A shipment whose \<^verbatim>\<open>eta\<close> or whose reference date is no valid date gets no gap.\<close>

lemma loopBody_invalid_date:
  assumes "orNull (eta imp) = Some s" and "diffInDays dateOf today s = None"
  shows "loopBody dateOf u today un idx imp st =
           pushImport un (shipLabel idx imp) (orZero (qty imp) / u) (orZero (qty imp)) (Some s) st"
  using assms by (simp add: loopBody_def Let_def)


lemma loopBody_extends: "\<exists>gs. segments (loopBody dateOf u today un idx imp st) = segments st @ gs"
  by (simp add: loopBody_def Let_def pushImport_def pushGap_def split: option.splits)

lemma importLoop_extends: "\<exists>gs. segments (importLoop dateOf u today un idx imps st) = segments st @ gs"
proof (induction imps arbitrary: idx st)
  case Nil
  then show ?case by simp
next
  case (Cons imp imps)
  obtain gs where a: "segments (loopBody dateOf u today un idx imp st) = segments st @ gs"
    using loopBody_extends by blast
  obtain hs where b: "segments (importLoop dateOf u today un (Suc idx) imps (loopBody dateOf u today un idx imp st))
      = segments (loopBody dateOf u today un idx imp st) @ hs"
    using Cons.IH by blast
  show ?case using a b by simp
qed

lemma stateAfter_prefix:
  "\<exists>gs. segments (stateAfter dateOf keyOf c today (length (orderOf keyOf c))) = segments (stateAfter dateOf keyOf c today k) @ gs"
proof -
  have "orderOf keyOf c = take k (orderOf keyOf c) @ drop k (orderOf keyOf c)" by simp
  then have "stateAfter dateOf keyOf c today (length (orderOf keyOf c)) =
      importLoop dateOf (useOf c) today (orBags (unit c)) (0 + length (take k (orderOf keyOf c))) (drop k (orderOf keyOf c))
        (stateAfter dateOf keyOf c today k)"
    unfolding stateAfter_def using importLoop_append [of _ _ _ _ 0 "take k (orderOf keyOf c)" "drop k (orderOf keyOf c)"]
    by simp
  then show ?thesis using importLoop_extends by simp
qed

subsection \<open>The timeline\<close>

text \<open>
  Claim C5, as the code implements it. For every chemical the segments of the timeline are
  contiguous: the first starts at day \<open>0\<close>, each next one starts where the one before
  ends, and \<^verbatim>\<open>timelineEndDay\<close> is the end of the last segment. For every chemical whose
  \<^verbatim>\<open>usePerDay\<close> is not negative no segment ends before it starts, no segment starts before
  day \<open>0\<close>, and the start days do not decrease.
\<close>

theorem timeline_contiguous:
  "(timeline (calculateChemical dateOf keyOf c today) \<noteq> [] \<longrightarrow>
      startDay (hd (timeline (calculateChemical dateOf keyOf c today))) = 0) \<and>
   (\<forall>i. Suc i < length (timeline (calculateChemical dateOf keyOf c today)) \<longrightarrow>
      startDay (timeline (calculateChemical dateOf keyOf c today) ! Suc i) =
      endDay (timeline (calculateChemical dateOf keyOf c today) ! i)) \<and>
   (timeline (calculateChemical dateOf keyOf c today) \<noteq> [] \<longrightarrow>
      timelineEndDay (calculateChemical dateOf keyOf c today) =
        Some (endDay (last (timeline (calculateChemical dateOf keyOf c today))))) \<and>
   (0 \<le> orZero (usePerDay c) \<longrightarrow>
      (\<forall>g \<in> set (timeline (calculateChemical dateOf keyOf c today)). 0 \<le> startDay g \<and> startDay g \<le> endDay g) \<and>
      sorted (map startDay (timeline (calculateChemical dateOf keyOf c today))))"
proof (cases "useOf c = 0")
  case True
  then have "timeline (calculateChemical dateOf keyOf c today) = []"
    by (simp add: calculateChemical_def calculateMigrated_def migrateChemical_fields Let_def useOf_def)
  then show ?thesis by simp
next
  case False
  define st where "st = stateAfter dateOf keyOf c today (length (orderOf keyOf c))"
  have tl: "timeline (calculateChemical dateOf keyOf c today) = segments st"
    and te: "timelineEndDay (calculateChemical dateOf keyOf c today) = Some (cursor st)"
    unfolding st_def using calculateChemical_loop [OF False, of dateOf keyOf today] by simp_all
  have ch: "chained 0 (segments st)" and ce: "chainEnd 0 (segments st) = cursor st"
    unfolding st_def using stateAfter_chain [of dateOf keyOf c today "length (orderOf keyOf c)"]
    by (simp_all add: chainInv_def)
  have 1: "segments st \<noteq> [] \<longrightarrow> startDay (hd (segments st)) = 0"
    using chained_hd [OF ch] by simp
  have 2: "\<forall>i. Suc i < length (segments st) \<longrightarrow>
             startDay (segments st ! Suc i) = endDay (segments st ! i)"
    using chained_nth [OF ch] by simp
  have 3: "segments st \<noteq> [] \<longrightarrow> Some (cursor st) = Some (endDay (last (segments st)))"
    using chainEnd_last [of "segments st" 0] ce by simp
  have 4: "0 \<le> orZero (usePerDay c) \<longrightarrow>
      (\<forall>g \<in> set (segments st). 0 \<le> startDay g \<and> startDay g \<le> endDay g) \<and>
      sorted (map startDay (segments st))"
  proof
    assume "0 \<le> orZero (usePerDay c)"
    with False have pos: "0 < useOf c" by (simp add: useOf_def)
    have fw: "forward (segments st)" unfolding st_def using pos by (rule stateAfter_forward)
    show "(\<forall>g \<in> set (segments st). 0 \<le> startDay g \<and> startDay g \<le> endDay g) \<and>
      sorted (map startDay (segments st))"
      using chained_forward_le [OF ch fw] chained_forward_sorted [OF ch fw] by simp
  qed
  show ?thesis unfolding tl te using 1 2 3 4 by blast
qed

theorem timeline_contiguous_witness:
  "0 \<le> orZero (usePerDay (chemicalOf 0 0 10 [undated 50, dated 50 ''1970-01-11''])) \<and>
   map (\<lambda>g. (segType g, startDay g, endDay g))
     (timeline (calculateChemical utcDate codeOrder (chemicalOf 0 0 10 [undated 50, dated 50 ''1970-01-11'']) ''1970-01-01'')) =
     [(Gap, 0, 10), (Import, 10, 15), (Import, 15, 20)] \<and>
   timelineEndDay (calculateChemical utcDate codeOrder (chemicalOf 0 0 10 [undated 50, dated 50 ''1970-01-11'']) ''1970-01-01'') = Some 20"
proof -
  have h: "0 \<le> orZero (usePerDay (chemicalOf 0 0 10 [undated 50, dated 50 ''1970-01-11'']))"
    by (simp add: chemicalOf_def orZero_def)
  have t: "map (\<lambda>g. (segType g, startDay g, endDay g))
     (timeline (calculateChemical utcDate codeOrder (chemicalOf 0 0 10 [undated 50, dated 50 ''1970-01-11'']) ''1970-01-01'')) =
     [(Gap, 0, 10), (Import, 10, 15), (Import, 15, 20)]"
    by (simp add: eval_defs)
  have e: "timelineEndDay (calculateChemical utcDate codeOrder (chemicalOf 0 0 10 [undated 50, dated 50 ''1970-01-11'']) ''1970-01-01'') = Some 20"
    by (simp add: eval_defs)
  show ?thesis
    using h t e timeline_contiguous [of utcDate codeOrder "chemicalOf 0 0 10 [undated 50, dated 50 ''1970-01-11'']"
        "''1970-01-01''"]
    by simp
qed

text \<open>
  Claim C5 as it is worded fails for a negative \<^verbatim>\<open>usePerDay\<close>, which the code takes as it
  is: with a stock of \<open>10\<close>, a consumption of \<open>-1\<close> a day and one shipment of \<open>20\<close> the
  segments run from day \<open>0\<close> to day \<open>-10\<close> and from day \<open>-10\<close> to day \<open>-30\<close>, each ending
  before it starts.
\<close>

theorem negative_use_runs_backwards:
  "map segType
     (timeline (calculateChemical utcDate codeOrder (chemicalOf 10 0 (- 1) [undated 20])
        ''1970-01-01'')) = [Factory, Import] \<and>
   map startDay
     (timeline (calculateChemical utcDate codeOrder (chemicalOf 10 0 (- 1) [undated 20])
        ''1970-01-01'')) = [0, - 10] \<and>
   map endDay
     (timeline (calculateChemical utcDate codeOrder (chemicalOf 10 0 (- 1) [undated 20])
        ''1970-01-01'')) = [- 10, - 30] \<and>
   \<not> sorted (map startDay
     (timeline (calculateChemical utcDate codeOrder (chemicalOf 10 0 (- 1) [undated 20])
        ''1970-01-01'')))"
  by (simp add: eval_defs)

text \<open>
  Claim C3. Let a shipment with an \<^verbatim>\<open>eta\<close> be the \<open>k\<close>-th in the processing order, \<open>st\<close>
  the state of the loop before it and \<open>st'\<close> the state after it, and let \<open>t\<close> and \<open>d\<close> be
  the time values of the reference date and of the \<^verbatim>\<open>eta\<close>. The quantity of the shipment is
  positive; its arrival day is the day difference \<open>\<lceil>(d - t) / 86400000\<rceil>\<close>, raised to \<open>0\<close> if
  negative. If the cursor is before the arrival day, a gap segment from the cursor to the
  arrival day with the quantity \<open>(arrival day - cursor) * usePerDay\<close> is pushed and added
  to the two gap totals, and the import segment, of \<open>qty / usePerDay\<close> days, starts at the
  arrival day; otherwise the import segment starts at the cursor and the gap totals stay.
  The segments pushed so far begin the timeline of the result, whose gap days and gap
  quantity are the sums over its gap segments.
\<close>

theorem dated_shipment_step:
  assumes "useOf c \<noteq> 0"
    and "k < length (orderOf keyOf c)"
    and "orNull (eta (orderOf keyOf c ! k)) = Some s"
    and "dateOf today = Some t"
    and "dateOf s = Some d"
  shows "0 < orZero (qty (orderOf keyOf c ! k)) \<and>
    diffInDays dateOf today s = Some \<lceil>real_of_int (d - t) / 86400000\<rceil> \<and>
    (let imp = orderOf keyOf c ! k;
         q = orZero (qty imp);
         u = useOf c;
         st = stateAfter dateOf keyOf c today k;
         st' = stateAfter dateOf keyOf c today (Suc k);
         etaDay = real_of_int (max 0 \<lceil>real_of_int (d - t) / 86400000\<rceil>);
         lbl = shipLabel k imp
     in 0 \<le> etaDay \<and>
        (cursor st < etaDay \<longrightarrow>
           segments st' = segments st @
             [\<lparr>segType = Gap, segLabel = GapLabel \<lceil>(etaDay - cursor st) * u\<rceil> (orBags (unit c)) lbl,
               startDay = cursor st, endDay = etaDay, days = etaDay - cursor st,
               segQty = (etaDay - cursor st) * u, segEta = None\<rparr>,
              \<lparr>segType = Import, segLabel = ImportLabel lbl q (orBags (unit c)) (Some s),
               startDay = etaDay, endDay = etaDay + q / u, days = q / u,
               segQty = q, segEta = Some s\<rparr>] \<and>
           totalGapDays st' = totalGapDays st + (etaDay - cursor st) \<and>
           totalGapQty st' = totalGapQty st + (etaDay - cursor st) * u \<and>
           cursor st' = etaDay + q / u) \<and>
        (\<not> cursor st < etaDay \<longrightarrow>
           segments st' = segments st @
             [\<lparr>segType = Import, segLabel = ImportLabel lbl q (orBags (unit c)) (Some s),
               startDay = cursor st, endDay = cursor st + q / u, days = q / u,
               segQty = q, segEta = Some s\<rparr>] \<and>
           totalGapDays st' = totalGapDays st \<and>
           totalGapQty st' = totalGapQty st \<and>
           cursor st' = cursor st + q / u) \<and>
        (\<exists>rest. timeline (calculateChemical dateOf keyOf c today) = segments st' @ rest)) \<and>
    gapDays (calculateChemical dateOf keyOf c today) =
      sum_list (map days (gapSegments (timeline (calculateChemical dateOf keyOf c today)))) \<and>
    gapQty (calculateChemical dateOf keyOf c today) =
      sum_list (map segQty (gapSegments (timeline (calculateChemical dateOf keyOf c today))))"
proof -
  define n where "n = \<lceil>real_of_int (d - t) / 86400000\<rceil>"
  have q: "0 < orZero (qty (orderOf keyOf c ! k))"
    using nth_mem [OF assms(2)] sortedImports_positive [of "orderOf keyOf c ! k"]
    by (simp add: orderOf_def)
  have dd: "diffInDays dateOf today s = Some n"
    using assms(4,5) by (simp add: diffInDays_def n_def)
  have step: "stateAfter dateOf keyOf c today (Suc k) =
      pushImport (orBags (unit c)) (shipLabel k (orderOf keyOf c ! k))
        (orZero (qty (orderOf keyOf c ! k)) / useOf c) (orZero (qty (orderOf keyOf c ! k))) (Some s)
        (if cursor (stateAfter dateOf keyOf c today k) < real_of_int (max 0 n)
         then pushGap (useOf c) (orBags (unit c)) (shipLabel k (orderOf keyOf c ! k))
                (real_of_int (max 0 n)) (stateAfter dateOf keyOf c today k)
         else stateAfter dateOf keyOf c today k)"
    using stateAfter_Suc [OF assms(2)] loopBody_dated [OF assms(3) dd] by simp
  have pre: "\<exists>rest. timeline (calculateChemical dateOf keyOf c today) =
      segments (stateAfter dateOf keyOf c today (Suc k)) @ rest"
    using calculateChemical_loop(1) [OF assms(1), of dateOf keyOf today]
      stateAfter_prefix [of dateOf keyOf c today "Suc k"] by simp
  have main: "let imp = orderOf keyOf c ! k;
         q = orZero (qty imp);
         u = useOf c;
         st = stateAfter dateOf keyOf c today k;
         st' = stateAfter dateOf keyOf c today (Suc k);
         etaDay = real_of_int (max 0 n);
         lbl = shipLabel k imp
     in 0 \<le> etaDay \<and>
        (cursor st < etaDay \<longrightarrow>
           segments st' = segments st @
             [\<lparr>segType = Gap, segLabel = GapLabel \<lceil>(etaDay - cursor st) * u\<rceil> (orBags (unit c)) lbl,
               startDay = cursor st, endDay = etaDay, days = etaDay - cursor st,
               segQty = (etaDay - cursor st) * u, segEta = None\<rparr>,
              \<lparr>segType = Import, segLabel = ImportLabel lbl q (orBags (unit c)) (Some s),
               startDay = etaDay, endDay = etaDay + q / u, days = q / u,
               segQty = q, segEta = Some s\<rparr>] \<and>
           totalGapDays st' = totalGapDays st + (etaDay - cursor st) \<and>
           totalGapQty st' = totalGapQty st + (etaDay - cursor st) * u \<and>
           cursor st' = etaDay + q / u) \<and>
        (\<not> cursor st < etaDay \<longrightarrow>
           segments st' = segments st @
             [\<lparr>segType = Import, segLabel = ImportLabel lbl q (orBags (unit c)) (Some s),
               startDay = cursor st, endDay = cursor st + q / u, days = q / u,
               segQty = q, segEta = Some s\<rparr>] \<and>
           totalGapDays st' = totalGapDays st \<and>
           totalGapQty st' = totalGapQty st \<and>
           cursor st' = cursor st + q / u) \<and>
        (\<exists>rest. timeline (calculateChemical dateOf keyOf c today) = segments st' @ rest)"
    unfolding Let_def step using pre [unfolded step]
    by (simp add: pushImport_def pushGap_def Let_def)
  have sums: "gapDays (calculateChemical dateOf keyOf c today) =
      sum_list (map days (gapSegments (timeline (calculateChemical dateOf keyOf c today)))) \<and>
    gapQty (calculateChemical dateOf keyOf c today) =
      sum_list (map segQty (gapSegments (timeline (calculateChemical dateOf keyOf c today))))"
    using stateAfter_gap [of dateOf keyOf c today "length (orderOf keyOf c)"]
      calculateChemical_loop [OF assms(1), of dateOf keyOf today] by (simp add: gapInv_def)
  show ?thesis using q dd main sums unfolding n_def by blast
qed

theorem dated_shipment_step_witness:
  "useOf (chemicalOf 30 0 10 [dated 100 ''1970-01-06'']) \<noteq> 0 \<and>
   0 < length (orderOf codeOrder (chemicalOf 30 0 10 [dated 100 ''1970-01-06''])) \<and>
   orNull (eta (orderOf codeOrder (chemicalOf 30 0 10 [dated 100 ''1970-01-06'']) ! 0)) =
     Some ''1970-01-06'' \<and>
   utcDate ''1970-01-01'' = Some 0 \<and>
   utcDate ''1970-01-06'' = Some (5 * day) \<and>
   diffInDays utcDate ''1970-01-01'' ''1970-01-06'' = Some 5 \<and>
   map (\<lambda>g. (segType g, startDay g, endDay g, segQty g))
     (timeline (calculateChemical utcDate codeOrder (chemicalOf 30 0 10 [dated 100 ''1970-01-06''])
        ''1970-01-01'')) =
     [(Factory, 0, 3, 30), (Gap, 3, 5, 20), (Import, 5, 15, 100)] \<and>
   gapDays (calculateChemical utcDate codeOrder (chemicalOf 30 0 10 [dated 100 ''1970-01-06''])
     ''1970-01-01'') = 2 \<and>
   gapQty (calculateChemical utcDate codeOrder (chemicalOf 30 0 10 [dated 100 ''1970-01-06''])
     ''1970-01-01'') = 20"
proof -
  have h1: "useOf (chemicalOf 30 0 10 [dated 100 ''1970-01-06'']) \<noteq> 0"
    by (simp add: eval_defs)
  have h2: "0 < length (orderOf codeOrder (chemicalOf 30 0 10 [dated 100 ''1970-01-06'']))"
    by (simp add: eval_defs)
  have h3: "orNull (eta (orderOf codeOrder (chemicalOf 30 0 10 [dated 100 ''1970-01-06'']) ! 0)) =
      Some ''1970-01-06''"
    by (simp add: eval_defs)
  have h4: "utcDate ''1970-01-01'' = Some 0"
    by (simp add: utcDate_def digitsValue_def daysFromCivil_def)
  have h5: "utcDate ''1970-01-06'' = Some (5 * day)"
    by (simp add: utcDate_def digitsValue_def daysFromCivil_def)
  have t: "map (\<lambda>g. (segType g, startDay g, endDay g, segQty g))
     (timeline (calculateChemical utcDate codeOrder (chemicalOf 30 0 10 [dated 100 ''1970-01-06''])
        ''1970-01-01'')) =
     [(Factory, 0, 3, 30), (Gap, 3, 5, 20), (Import, 5, 15, 100)]"
    by (simp add: eval_defs)
  have d: "diffInDays utcDate ''1970-01-01'' ''1970-01-06'' = Some 5"
    by (simp add: diffInDays_def h4 h5 day_def)
  have g: "gapDays (calculateChemical utcDate codeOrder (chemicalOf 30 0 10 [dated 100 ''1970-01-06''])
      ''1970-01-01'') = 2"
    "gapQty (calculateChemical utcDate codeOrder (chemicalOf 30 0 10 [dated 100 ''1970-01-06''])
      ''1970-01-01'') = 20"
    by (simp_all add: eval_defs)
  show ?thesis
    using dated_shipment_step [OF h1 h2 h3 h4 h5]
    by (intro conjI) (rule h1, rule h2, rule h3, rule h4, rule h5, rule d, rule t, rule g(1), rule g(2))
qed

subsection \<open>The processing order\<close>















subsection \<open>Shipments without a positive quantity\<close>

lemma sortedImports_skip:
  assumes "orZero (qty s) \<le> 0"
  shows "sortedImports keyOf (xs @ s # ys) = sortedImports keyOf (xs @ ys)"
proof -
  from assms have "\<not> 0 < orZero (qty s)" by simp
  then show ?thesis by (simp add: sortedImports_def withEta_def withoutEta_def)
qed

lemma foldl_qty:
  "foldl (\<lambda>sum i. sum + orZero (qty i)) a imps = a + sum_list (map (\<lambda>i. orZero (qty i)) imps)"
  by (induction imps arbitrary: a) simp_all

text \<open>
  Claim C6, as the code implements it. A shipment whose quantity is \<open>0\<close>, negative or
  missing is not in the processing order: the timeline, its end, the gap totals, the status
  and the values of the immediate stock are those of the chemical without that shipment.
  When its quantity is \<open>0\<close> or missing, the total import, the total, the total days and the
  total months are those of the chemical without it as well.
\<close>

theorem nonpositive_shipment_ignored:
  assumes "chem_imports c = Arr (xs @ s # ys)"
    and "orZero (qty s) \<le> 0"
  shows "timeline (calculateChemical dateOf keyOf (c\<lparr>chem_imports := Arr (xs @ ys)\<rparr>) today) =
           timeline (calculateChemical dateOf keyOf c today) \<and>
         timelineEndDay (calculateChemical dateOf keyOf (c\<lparr>chem_imports := Arr (xs @ ys)\<rparr>) today) =
           timelineEndDay (calculateChemical dateOf keyOf c today) \<and>
         gapDays (calculateChemical dateOf keyOf (c\<lparr>chem_imports := Arr (xs @ ys)\<rparr>) today) =
           gapDays (calculateChemical dateOf keyOf c today) \<and>
         gapQty (calculateChemical dateOf keyOf (c\<lparr>chem_imports := Arr (xs @ ys)\<rparr>) today) =
           gapQty (calculateChemical dateOf keyOf c today) \<and>
         status (calculateChemical dateOf keyOf (c\<lparr>chem_imports := Arr (xs @ ys)\<rparr>) today) =
           status (calculateChemical dateOf keyOf c today) \<and>
         immediateStock (calculateChemical dateOf keyOf (c\<lparr>chem_imports := Arr (xs @ ys)\<rparr>) today) =
           immediateStock (calculateChemical dateOf keyOf c today) \<and>
         immediateDays (calculateChemical dateOf keyOf (c\<lparr>chem_imports := Arr (xs @ ys)\<rparr>) today) =
           immediateDays (calculateChemical dateOf keyOf c today) \<and>
         s \<notin> set (orderOf keyOf c) \<and>
         (orZero (qty s) = 0 \<longrightarrow>
            totalImport (calculateChemical dateOf keyOf (c\<lparr>chem_imports := Arr (xs @ ys)\<rparr>) today) =
              totalImport (calculateChemical dateOf keyOf c today) \<and>
            total (calculateChemical dateOf keyOf (c\<lparr>chem_imports := Arr (xs @ ys)\<rparr>) today) =
              total (calculateChemical dateOf keyOf c today) \<and>
            totalDays (calculateChemical dateOf keyOf (c\<lparr>chem_imports := Arr (xs @ ys)\<rparr>) today) =
              totalDays (calculateChemical dateOf keyOf c today) \<and>
            totalMonths (calculateChemical dateOf keyOf (c\<lparr>chem_imports := Arr (xs @ ys)\<rparr>) today) =
              totalMonths (calculateChemical dateOf keyOf c today))"
proof -
  have n: "s \<notin> set (orderOf keyOf c)"
    using assms(2) sortedImports_positive [of s] by (fastforce simp add: orderOf_def)
  show ?thesis
    using assms n
    by (simp add: calculateChemical_def calculateMigrated_def migrateChemical_def Let_def
        orEmpty_def sortedImports_skip foldl_qty)
qed

theorem nonpositive_shipment_ignored_witness:
  "chem_imports (chemicalOf 30 0 10 [dated 100 ''1970-01-06'', undated 0]) = Arr ([dated 100 ''1970-01-06''] @ undated 0 # []) \<and>
   orZero (qty (undated 0)) \<le> 0 \<and> orZero (qty (undated 0)) = 0 \<and>
   (chemicalOf 30 0 10 [dated 100 ''1970-01-06'', undated 0])\<lparr>chem_imports := Arr ([dated 100 ''1970-01-06''] @ [])\<rparr> =
     chemicalOf 30 0 10 [dated 100 ''1970-01-06''] \<and>
   timeline (calculateChemical utcDate codeOrder (chemicalOf 30 0 10 [dated 100 ''1970-01-06'', undated 0]) ''1970-01-01'') =
     timeline (calculateChemical utcDate codeOrder (chemicalOf 30 0 10 [dated 100 ''1970-01-06'']) ''1970-01-01'') \<and>
   total (calculateChemical utcDate codeOrder (chemicalOf 30 0 10 [dated 100 ''1970-01-06'', undated 0]) ''1970-01-01'') =
     total (calculateChemical utcDate codeOrder (chemicalOf 30 0 10 [dated 100 ''1970-01-06'']) ''1970-01-01'')"
proof -
  have h1: "chem_imports (chemicalOf 30 0 10 [dated 100 ''1970-01-06'', undated 0]) =
      Arr ([dated 100 ''1970-01-06''] @ undated 0 # [])"
    by (simp add: chemicalOf_def)
  have h2: "orZero (qty (undated 0)) \<le> 0"
    by (simp add: undated_def orZero_def)
  have h3: "orZero (qty (undated 0)) = 0"
    by (simp add: undated_def orZero_def)
  have e: "(chemicalOf 30 0 10 [dated 100 ''1970-01-06'', undated 0])\<lparr>chem_imports := Arr ([dated 100 ''1970-01-06''] @ [])\<rparr> =
     chemicalOf 30 0 10 [dated 100 ''1970-01-06'']"
    by (simp add: chemicalOf_def)
  show ?thesis
    using h1 h2 h3 e nonpositive_shipment_ignored [OF h1 h2, where dateOf = utcDate and keyOf = codeOrder
        and today = "''1970-01-01''"]
    by simp
qed

text \<open>
  Claim C6 as it is worded fails for a negative quantity, which the totals do not ignore: \<^verbatim>\<open>reduce\<close> adds the
  quantity of every shipment. With a stock of \<open>10\<close>, a consumption of \<open>1\<close> a day and one
  shipment of \<open>-5\<close>, the total import is \<open>-5\<close> and the total \<open>5\<close>, where the chemical
  without the shipment has \<open>0\<close> and \<open>10\<close>; the timelines are the same.
\<close>

theorem negative_quantity_counted:
  "totalImport (calculateChemical utcDate codeOrder (chemicalOf 10 0 1 [undated (- 5)]) ''1970-01-01'') = - 5 \<and>
   total (calculateChemical utcDate codeOrder (chemicalOf 10 0 1 [undated (- 5)]) ''1970-01-01'') = 5 \<and>
   totalDays (calculateChemical utcDate codeOrder (chemicalOf 10 0 1 [undated (- 5)]) ''1970-01-01'') = Fin 5 \<and>
   timelineEndDay (calculateChemical utcDate codeOrder (chemicalOf 10 0 1 [undated (- 5)]) ''1970-01-01'') = Some 10 \<and>
   totalImport (calculateChemical utcDate codeOrder (chemicalOf 10 0 1 []) ''1970-01-01'') = 0 \<and>
   total (calculateChemical utcDate codeOrder (chemicalOf 10 0 1 []) ''1970-01-01'') = 10 \<and>
   totalDays (calculateChemical utcDate codeOrder (chemicalOf 10 0 1 []) ''1970-01-01'') = Fin 10 \<and>
   timeline (calculateChemical utcDate codeOrder (chemicalOf 10 0 1 [undated (- 5)]) ''1970-01-01'') =
     timeline (calculateChemical utcDate codeOrder (chemicalOf 10 0 1 []) ''1970-01-01'')"
  by (simp add: eval_defs)

subsection \<open>calculateAll\<close>

lemma status_partition:
  "length (filter (\<lambda>d. status d = Critical) ds) + length (filter (\<lambda>d. status d = Warning) ds) +
   length (filter (\<lambda>d. status d = Low) ds) + length (filter (\<lambda>d. status d = Ok) ds) = length ds"
proof (induction ds)
  case Nil
  then show ?case by simp
next
  case (Cons d ds)
  then show ?case by (cases "status d") simp_all
qed

text \<open>
  Claim C9. \<^verbatim>\<open>calculateAll\<close> maps \<^verbatim>\<open>calculateChemical\<close> over the chemicals in their input
  order; the critical, warning and gap items are the results with that status, or with
  positive gap days, in the same order; the summary counts the results, the lists and the
  results of each status, the four status counts adding up to the total; for no chemical
  the summary is all \<open>0\<close> and the lists are empty.
\<close>

theorem calculateAll_summary:
  "chemicals (calculateAll dateOf keyOf cs today) = map (\<lambda>c. calculateChemical dateOf keyOf c today) cs \<and>
   map base (chemicals (calculateAll dateOf keyOf cs today)) = map migrateChemical cs \<and>
   criticalItems (calculateAll dateOf keyOf cs today) =
     filter (\<lambda>d. status d = Critical) (chemicals (calculateAll dateOf keyOf cs today)) \<and>
   warningItems (calculateAll dateOf keyOf cs today) =
     filter (\<lambda>d. status d = Warning) (chemicals (calculateAll dateOf keyOf cs today)) \<and>
   gapItems (calculateAll dateOf keyOf cs today) =
     filter (\<lambda>d. gapDays d > 0) (chemicals (calculateAll dateOf keyOf cs today)) \<and>
   sum_total (summary (calculateAll dateOf keyOf cs today)) = length cs \<and>
   sum_critical (summary (calculateAll dateOf keyOf cs today)) = length (criticalItems (calculateAll dateOf keyOf cs today)) \<and>
   sum_warning (summary (calculateAll dateOf keyOf cs today)) = length (warningItems (calculateAll dateOf keyOf cs today)) \<and>
   sum_low (summary (calculateAll dateOf keyOf cs today)) =
     length (filter (\<lambda>d. status d = Low) (chemicals (calculateAll dateOf keyOf cs today))) \<and>
   sum_ok (summary (calculateAll dateOf keyOf cs today)) =
     length (filter (\<lambda>d. status d = Ok) (chemicals (calculateAll dateOf keyOf cs today))) \<and>
   sum_withGaps (summary (calculateAll dateOf keyOf cs today)) = length (gapItems (calculateAll dateOf keyOf cs today)) \<and>
   sum_critical (summary (calculateAll dateOf keyOf cs today)) + sum_warning (summary (calculateAll dateOf keyOf cs today)) +
     sum_low (summary (calculateAll dateOf keyOf cs today)) + sum_ok (summary (calculateAll dateOf keyOf cs today)) =
     sum_total (summary (calculateAll dateOf keyOf cs today)) \<and>
   calculateAll dateOf keyOf [] today =
     \<lparr>chemicals = [],
      summary = \<lparr>sum_total = 0, sum_critical = 0, sum_warning = 0, sum_low = 0, sum_ok = 0,
                 sum_withGaps = 0\<rparr>,
      criticalItems = [], warningItems = [], gapItems = []\<rparr>"
proof -
  have b: "map base (map (\<lambda>c. calculateChemical dateOf keyOf c today) cs) = map migrateChemical cs"
    by (simp add: calculateChemical_def calculateMigrated_def Let_def)
  have p: "length (filter (\<lambda>d. status d = Critical) (map (\<lambda>c. calculateChemical dateOf keyOf c today) cs)) +
      length (filter (\<lambda>d. status d = Warning) (map (\<lambda>c. calculateChemical dateOf keyOf c today) cs)) +
      length (filter (\<lambda>d. status d = Low) (map (\<lambda>c. calculateChemical dateOf keyOf c today) cs)) +
      length (filter (\<lambda>d. status d = Ok) (map (\<lambda>c. calculateChemical dateOf keyOf c today) cs)) = length cs"
    using status_partition [of "map (\<lambda>c. calculateChemical dateOf keyOf c today) cs"] by simp
  show ?thesis
    using b p by (simp add: calculateAll_def Let_def)
qed

theorem calculateAll_summary_witness:
  "summary (calculateAll utcDate codeOrder [chemicalOf 30 0 10 [], chemicalOf 250 0 10 [dated 100 ''1970-02-20''],
                           chemicalOf 250 0 10 []] ''1970-01-01'') =
     \<lparr>sum_total = 3, sum_critical = 1, sum_warning = 1, sum_low = 0, sum_ok = 1, sum_withGaps = 1\<rparr> \<and>
   map (factoryStock \<circ> base)
     (chemicals (calculateAll utcDate codeOrder [chemicalOf 30 0 10 [], chemicalOf 250 0 10 [dated 100 ''1970-02-20''],
                               chemicalOf 250 0 10 []] ''1970-01-01'')) = [Some 30, Some 250, Some 250] \<and>
   map (length \<circ> timeline)
     (gapItems (calculateAll utcDate codeOrder [chemicalOf 30 0 10 [], chemicalOf 250 0 10 [dated 100 ''1970-02-20''],
                              chemicalOf 250 0 10 []] ''1970-01-01'')) = [3]"
proof -
  have s: "map (\<lambda>d. (status d, gapDays d, length (timeline d), factoryStock (base d)))
      (map (\<lambda>c. calculateChemical utcDate codeOrder c ''1970-01-01'')
         [chemicalOf 30 0 10 [], chemicalOf 250 0 10 [dated 100 ''1970-02-20''], chemicalOf 250 0 10 []]) =
      [(Critical, 0, 1, Some 30), (Warning, 25, 3, Some 250), (Ok, 0, 1, Some 250)]"
    by (simp add: eval_defs)
  have r1: "summary (calculateAll utcDate codeOrder [chemicalOf 30 0 10 [], chemicalOf 250 0 10 [dated 100 ''1970-02-20''],
                           chemicalOf 250 0 10 []] ''1970-01-01'') =
     \<lparr>sum_total = 3, sum_critical = 1, sum_warning = 1, sum_low = 0, sum_ok = 1, sum_withGaps = 1\<rparr>"
    using s by (simp add: calculateAll_def Let_def)
  have r2: "map (factoryStock \<circ> base)
     (chemicals (calculateAll utcDate codeOrder [chemicalOf 30 0 10 [], chemicalOf 250 0 10 [dated 100 ''1970-02-20''],
                               chemicalOf 250 0 10 []] ''1970-01-01'')) = [Some 30, Some 250, Some 250]"
    using s by (simp add: calculateAll_def Let_def)
  have r3: "map (length \<circ> timeline)
     (gapItems (calculateAll utcDate codeOrder [chemicalOf 30 0 10 [], chemicalOf 250 0 10 [dated 100 ''1970-02-20''],
                              chemicalOf 250 0 10 []] ''1970-01-01'')) = [3]"
    using s by (simp add: calculateAll_def Let_def)
  show ?thesis
    using calculateAll_summary [of utcDate codeOrder
        "[chemicalOf 30 0 10 [], chemicalOf 250 0 10 [dated 100 ''1970-02-20''], chemicalOf 250 0 10 []]"
        "''1970-01-01''"]
    by (intro conjI) (rule r1, rule r2, rule r3)
qed

subsection \<open>calculateChemical writes to no object\<close>

text \<open>
  Claim C10. A call of \<^verbatim>\<open>calculateChemical\<close> on a reference to a chemical returns; after
  it the chemical, and every other object of the stores, is what it was before; and the
  reference returned is a new one, to an object holding the derived values.
\<close>

theorem calculateChemical_ref_frame:
  assumes "lookup (chemObjs h) r = Some chem"
  shows "\<exists>h' r'. calculateChemical_ref dateOf keyOf h r today = Some (h', r') \<and>
           lookup (chemObjs h') r = Some chem \<and>
           take (length (chemObjs h)) (chemObjs h') = chemObjs h \<and>
           take (length (derivedObjs h)) (derivedObjs h') = derivedObjs h \<and>
           lookup (derivedObjs h) r' = None \<and>
           lookup (derivedObjs h') r' = Some (calculateChemical dateOf keyOf chem today)"
proof -
  obtain cs rc where m: "migrateChemical_ref (chemObjs h) r = Some (cs, rc)"
    and v: "lookup cs rc = Some (migrateChemical chem)"
    and t: "take (length (chemObjs h)) cs = chemObjs h"
    and l: "length (chemObjs h) \<le> length cs"
    using migrateChemical_ref_value [OF assms] by blast
  from assms have rl: "r < length (chemObjs h)" and rv: "chemObjs h ! r = chem"
    by (simp_all add: lookup_def split: if_splits)
  have "cs ! r = take (length (chemObjs h)) cs ! r" using rl by simp
  with t rv have "cs ! r = chem" by simp
  with rl l have keep: "lookup cs r = Some chem" by (simp add: lookup_def)
  show ?thesis
    using m v t keep
    by (auto simp add: calculateChemical_ref_def alloc_def lookup_def calculateChemical_def
        split: if_splits)
qed

theorem calculateChemical_ref_frame_witness:
  "lookup (chemObjs \<lparr>chemObjs = [legacyChemical ''kg'' 40], derivedObjs = []\<rparr>) 0 =
     Some (legacyChemical ''kg'' 40) \<and>
   (\<exists>h' r'. calculateChemical_ref utcDate codeOrder
        \<lparr>chemObjs = [legacyChemical ''kg'' 40], derivedObjs = []\<rparr> 0 ''1970-01-01'' =
        Some (h', r') \<and>
      chemObjs h' = [legacyChemical ''kg'' 40, migrateChemical (legacyChemical ''kg'' 40)] \<and>
      r' = 0 \<and> length (derivedObjs h') = 1)"
proof -
  have h: "lookup (chemObjs \<lparr>chemObjs = [legacyChemical ''kg'' 40], derivedObjs = []\<rparr>) 0 =
     Some (legacyChemical ''kg'' 40)"
    by (simp add: lookup_def)
  have i: "chem_imports (legacyChemical ''kg'' 40) = Undefined"
    by (simp add: legacyChemical_def)
  show ?thesis
    using h calculateChemical_ref_frame [OF h, where dateOf = utcDate and keyOf = codeOrder
        and today = "''1970-01-01''"]
    by (simp add: calculateChemical_ref_def migrateChemical_ref_def alloc_def lookup_def i)
qed

end
